theory Spec2Isabelle
  imports Complex_Main "HOL-Library.Sublist" "HOL-Library.Multiset"
begin

section \<open>The fertilizer recommendation engine\<close>

text \<open>
  A shallow embedding of \<^verbatim>\<open>src/recommender.py\<close> (class \<^verbatim>\<open>FertilizerRecommender\<close>) and of
  the three lookups of \<^verbatim>\<open>src/database.py\<close> that it calls.

  Conventions of the embedding.
  \<^item> Python floats are idealised as \<^typ>\<open>real\<close>: \<open>+\<close>, \<open>-\<close>, \<open>*\<close> and \<open>/\<close> are exact.
    What is kept of float arithmetic is its one fault: a division by zero raises
    \<^verbatim>\<open>ZeroDivisionError\<close>.
  \<^item> Strings are ASCII \<^typ>\<open>string\<close>s; \<^verbatim>\<open>str.upper\<close> and SQL \<^verbatim>\<open>LOWER\<close> change the 26 letters
    and nothing else.
  \<^item> A raised exception is \<open>Inl\<close> of a \<open>py_error\<close>; a returned value is \<open>Inr\<close>.
  \<^item> A row of the catalog is a record of the columns the engine reads. Columns are
    taken to hold numbers (no SQL \<^verbatim>\<open>NULL\<close>).
\<close>

subsection \<open>Errors and numbers\<close>

datatype py_error = ZeroDivisionError | IndexError

text \<open>Float division \<^verbatim>\<open>a / b\<close>.\<close>

definition py_div :: "real \<Rightarrow> real \<Rightarrow> py_error + real" where
  "py_div a b = (if b = 0 then Inl ZeroDivisionError else Inr (a / b))"

text \<open>
  \<^verbatim>\<open>round(x, n)\<close>: the nearest multiple of \<open>10^-n\<close>, a tie going to the even neighbour.
\<close>

definition round_half_even :: "real \<Rightarrow> int" where
  "round_half_even x =
     (let f = \<lfloor>x\<rfloor>; d = x - of_int f
      in if d < 1 / 2 then f
         else if 1 / 2 < d then f + 1
         else if even f then f else f + 1)"

definition py_round :: "real \<Rightarrow> nat \<Rightarrow> real" where
  "py_round x n = of_int (round_half_even (x * 10 ^ n)) / 10 ^ n"

subsection \<open>Strings\<close>

definition upper_char :: "char \<Rightarrow> char" where
  "upper_char c =
     (case map_of (zip ''abcdefghijklmnopqrstuvwxyz'' ''ABCDEFGHIJKLMNOPQRSTUVWXYZ'') c of
        None \<Rightarrow> c
      | Some u \<Rightarrow> u)"

definition lower_char :: "char \<Rightarrow> char" where
  "lower_char c =
     (case map_of (zip ''ABCDEFGHIJKLMNOPQRSTUVWXYZ'' ''abcdefghijklmnopqrstuvwxyz'') c of
        None \<Rightarrow> c
      | Some l \<Rightarrow> l)"

definition upper :: "string \<Rightarrow> string" where
  "upper s = map upper_char s"

definition lower :: "string \<Rightarrow> string" where
  "lower s = map lower_char s"

text \<open>Python's \<^verbatim>\<open>key in s\<close> on strings: \<open>key\<close> occurs in \<open>s\<close> as a contiguous block.\<close>

fun starts_with :: "string \<Rightarrow> string \<Rightarrow> bool" where
  "starts_with [] s = True"
| "starts_with (k # ks) [] = False"
| "starts_with (k # ks) (c # cs) = (k = c \<and> starts_with ks cs)"

fun contains :: "string \<Rightarrow> string \<Rightarrow> bool" where
  "contains key [] = (key = [])"
| "contains key (c # cs) = (starts_with key (c # cs) \<or> contains key cs)"

subsection \<open>The catalog (\<^verbatim>\<open>database.py\<close>)\<close>

record crop =
  crop_name :: string
  nitrogen_requirement :: int
  phosphorus_requirement :: int
  potassium_requirement :: int

record soil =
  soil_type :: string
  ph_range :: string
  water_retention :: string

record fertilizer =
  fertilizer_id :: nat
  product_name :: string
  nitrogen_content :: real
  phosphorus_content :: real
  potassium_content :: real
  price_per_kg :: real
  availability :: string
  application_notes :: string

record database =
  crops :: "crop list"
  soils :: "soil list"
  fertilizers :: "fertilizer list"

text \<open>
  \<^verbatim>\<open>SELECT * FROM crops WHERE LOWER(crop_name) = LOWER(?)\<close> followed by \<^verbatim>\<open>fetchone()\<close>:
  the first matching row, or \<^verbatim>\<open>None\<close>.
\<close>

definition get_crop_by_name :: "database \<Rightarrow> string \<Rightarrow> crop option" where
  "get_crop_by_name db name = find (\<lambda>c. lower (crop_name c) = lower name) (crops db)"

definition get_soil_by_type :: "database \<Rightarrow> string \<Rightarrow> soil option" where
  "get_soil_by_type db name = find (\<lambda>s. lower (soil_type s) = lower name) (soils db)"

text \<open>
  \<^verbatim>\<open>SELECT * FROM fertilizers ORDER BY price_per_kg\<close>. Rows of equal price are kept in
  table order.
\<close>

definition get_all_fertilizers :: "database \<Rightarrow> fertilizer list" where
  "get_all_fertilizers db = sort_key price_per_kg (fertilizers db)"

subsection \<open>The rate resolver\<close>

text \<open>
  \<^verbatim>\<open>self.standard_rates\<close>: a dict, iterated in insertion order.
\<close>

definition standard_rates :: "(string \<times> int) list" where
  "standard_rates =
     [(''DAP'', 50), (''CAN'', 50), (''NPK'', 50), (''Urea'', 50), (''TSP'', 50),
      (''Manure'', 2000), (''Compost'', 2000)]"

text \<open>
  The loop \<^verbatim>\<open>for key, rate in self.standard_rates.items(): if key.upper() in
  fertilizer_name.upper(): rate_per_acre = rate; break\<close>, with \<open>rate_per_acre\<close> the value
  the variable holds on entry.
\<close>

fun scan_rates :: "(string \<times> int) list \<Rightarrow> string \<Rightarrow> int \<Rightarrow> int" where
  "scan_rates [] fertilizer_name rate_per_acre = rate_per_acre"
| "scan_rates ((key, rate) # rest) fertilizer_name rate_per_acre =
     (if contains (upper key) (upper fertilizer_name) then rate
      else scan_rates rest fertilizer_name rate_per_acre)"

definition get_fertilizer_rate :: "string \<Rightarrow> real \<Rightarrow> real" where
  "get_fertilizer_rate fertilizer_name farm_size_acres =
     of_int (scan_rates standard_rates fertilizer_name 50) * farm_size_acres"

subsection \<open>The scorer\<close>

text \<open>
  \<^verbatim>\<open>score_fertilizer\<close>. The three crop ratios divide by the sum of the crop's
  requirements before anything else is computed, so a zero sum raises there.
\<close>

definition npk_penalty :: "crop \<Rightarrow> fertilizer \<Rightarrow> real" where
  "npk_penalty crop fert =
     (let crop_total = of_int (nitrogen_requirement crop + phosphorus_requirement crop
                               + potassium_requirement crop);
          crop_n_ratio = of_int (nitrogen_requirement crop) / crop_total;
          crop_p_ratio = of_int (phosphorus_requirement crop) / crop_total;
          crop_k_ratio = of_int (potassium_requirement crop) / crop_total;
          total_npk = nitrogen_content fert + phosphorus_content fert + potassium_content fert;
          fert_n_ratio = nitrogen_content fert / total_npk;
          fert_p_ratio = phosphorus_content fert / total_npk;
          fert_k_ratio = potassium_content fert / total_npk;
          ratio_diff = \<bar>crop_n_ratio - fert_n_ratio\<bar> + \<bar>crop_p_ratio - fert_p_ratio\<bar>
                       + \<bar>crop_k_ratio - fert_k_ratio\<bar>
      in ratio_diff * 30)"

definition price_penalty :: "fertilizer \<Rightarrow> real \<Rightarrow> real" where
  "price_penalty fert budget_per_kg =
     (let price_diff = price_per_kg fert - budget_per_kg
      in (price_diff / budget_per_kg) * 40)"

definition score_fertilizer :: "crop \<Rightarrow> fertilizer \<Rightarrow> real option \<Rightarrow> py_error + real" where
  "score_fertilizer crop fert budget_per_kg =
     (if nitrogen_requirement crop + phosphorus_requirement crop + potassium_requirement crop = 0
      then Inl ZeroDivisionError
      else
        let score = 100;
            total_npk = nitrogen_content fert + phosphorus_content fert + potassium_content fert;
            score = (if total_npk > 0 then score - min (npk_penalty crop fert) 60 else score);
            score = (case budget_per_kg of
                       None \<Rightarrow> score
                     | Some b \<Rightarrow>
                         if b \<noteq> 0 \<and> price_per_kg fert > b
                         then score - min (price_penalty fert b) 40
                         else score)
        in Inr (max score 0))"

text \<open>
  The two amounts that the scorer subtracts from 100: \<^verbatim>\<open>min(npk_penalty, 60)\<close> under
  \<^verbatim>\<open>if total_npk > 0\<close>, and \<^verbatim>\<open>min(price_penalty, 40)\<close> under \<^verbatim>\<open>if budget_per_kg:\<close> and
  \<^verbatim>\<open>if fertilizer["price_per_kg"] > budget_per_kg\<close>. Each is 0 when its test fails.
\<close>

definition npk_deduction :: "crop \<Rightarrow> fertilizer \<Rightarrow> real" where
  "npk_deduction crop fert =
     (let total_npk = nitrogen_content fert + phosphorus_content fert + potassium_content fert
      in if total_npk > 0 then min (npk_penalty crop fert) 60 else 0)"

definition budget_deduction :: "fertilizer \<Rightarrow> real option \<Rightarrow> real" where
  "budget_deduction fert budget_per_kg =
     (case budget_per_kg of
        None \<Rightarrow> 0
      | Some b \<Rightarrow>
          if b \<noteq> 0 \<and> price_per_kg fert > b then min (price_penalty fert b) 40 else 0)"

subsection \<open>The assembler\<close>

record scored =
  fertilizer :: fertilizer
  score :: real
  application_rate_kg :: real
  total_cost :: real
  cost_per_acre :: real

text \<open>
  \<^verbatim>\<open>budget_per_kg\<close>: set only when \<^verbatim>\<open>budget_total and farm_size_acres\<close> is truthy.
\<close>

definition budget_per_kg_of :: "real option \<Rightarrow> real \<Rightarrow> real option" where
  "budget_per_kg_of budget_total farm_size_acres =
     (case budget_total of
        None \<Rightarrow> None
      | Some b \<Rightarrow>
          if b \<noteq> 0 \<and> farm_size_acres \<noteq> 0
          then (let estimated_kg = 50 * farm_size_acres in Some (b / estimated_kg))
          else None)"

text \<open>
  The loop \<^verbatim>\<open>for fert in all_fertilizers\<close>. One entry is built per fertilizer, in order;
  the first exception ends the loop. \<^verbatim>\<open>total_cost / farm_size_acres\<close> is the division of
  the entry's \<^verbatim>\<open>cost_per_acre\<close>. \<open>cost_of\<close> is the unrounded
  \<^verbatim>\<open>total_cost = application_rate * fert["price_per_kg"]\<close>.
\<close>

definition cost_of :: "real \<Rightarrow> fertilizer \<Rightarrow> real" where
  "cost_of farm_size_acres fert =
     get_fertilizer_rate (product_name fert) farm_size_acres * price_per_kg fert"

fun score_all :: "crop \<Rightarrow> real \<Rightarrow> real option \<Rightarrow> fertilizer list \<Rightarrow> py_error + scored list" where
  "score_all crop farm_size_acres budget_per_kg [] = Inr []"
| "score_all crop farm_size_acres budget_per_kg (fert # rest) =
     (let application_rate = get_fertilizer_rate (product_name fert) farm_size_acres;
          cost = cost_of farm_size_acres fert
      in case score_fertilizer crop fert budget_per_kg of
           Inl e \<Rightarrow> Inl e
         | Inr sc \<Rightarrow>
             (case py_div cost farm_size_acres of
                Inl e \<Rightarrow> Inl e
              | Inr per_acre \<Rightarrow>
                  (case score_all crop farm_size_acres budget_per_kg rest of
                     Inl e \<Rightarrow> Inl e
                   | Inr entries \<Rightarrow>
                       Inr (\<lparr>fertilizer = fert, score = sc,
                             application_rate_kg = application_rate,
                             total_cost = py_round cost 2,
                             cost_per_acre = py_round per_acre 2\<rparr> # entries))))"

text \<open>
  \<^verbatim>\<open>scored_fertilizers.sort(key=lambda x: x["score"], reverse=True)\<close>: Python's sort is
  stable, also under \<^verbatim>\<open>reverse=True\<close>.
\<close>

definition rank_by_score :: "scored list \<Rightarrow> scored list" where
  "rank_by_score scored_fertilizers = sort_key (\<lambda>x. - score x) scored_fertilizers"

text \<open>The comprehension \<^verbatim>\<open>[f for f in scored_fertilizers if f["total_cost"] <= budget_total]\<close>.\<close>

definition budget_filter :: "real \<Rightarrow> scored list \<Rightarrow> scored list" where
  "budget_filter budget_total scored_fertilizers =
     filter (\<lambda>f. total_cost f \<le> budget_total) scored_fertilizers"

text \<open>\<^verbatim>\<open>affordable\<close> after \<^verbatim>\<open>if budget_total:\<close>.\<close>

definition affordable_of :: "real option \<Rightarrow> scored list \<Rightarrow> scored list" where
  "affordable_of budget_total scored_fertilizers =
     (case budget_total of
        None \<Rightarrow> scored_fertilizers
      | Some b \<Rightarrow> if b \<noteq> 0 then budget_filter b scored_fertilizers else scored_fertilizers)"

text \<open>
  The rest of the selection, from the ranked list: the fallback sorts
  \<^verbatim>\<open>scored_fertilizers\<close> in place by cost, so the alternatives read the re-sorted list
  when the fallback ran. \<^verbatim>\<open>affordable[0]\<close> raises \<^verbatim>\<open>IndexError\<close> on an empty list. The
  result is \<^verbatim>\<open>top_choice\<close> and \<^verbatim>\<open>alternatives\<close>.
\<close>

definition select :: "real option \<Rightarrow> scored list \<Rightarrow> py_error + (scored \<times> scored list)" where
  "select budget_total ranked =
     (let affordable = affordable_of budget_total ranked;
          scored_fertilizers = (if affordable = [] then sort_key total_cost ranked else ranked);
          affordable = (if affordable = [] then take 3 scored_fertilizers else affordable)
      in case affordable of
           [] \<Rightarrow> Inl IndexError
         | top_choice # _ \<Rightarrow>
             Inr (top_choice,
                  if length affordable > 1 then take 3 (drop 1 affordable)
                  else take 3 (drop 1 scored_fertilizers)))"

record primary_recommendation =
  pr_fertilizer_name :: string
  pr_npk :: "real \<times> real \<times> real"
  pr_quantity_kg :: real
  pr_quantity_bags :: real
  pr_total_cost :: real
  pr_cost_per_acre :: real
  pr_price_per_kg :: real
  pr_score :: real
  pr_application_notes :: string

record alternative =
  alt_fertilizer_name :: string
  alt_npk :: "real \<times> real \<times> real"
  alt_quantity_kg :: real
  alt_total_cost :: real
  alt_cost_per_acre :: real

record recommendation =
  rec_crop :: string
  rec_soil :: string
  rec_farm_size_acres :: real
  rec_budget_total :: "real option"
  primary :: primary_recommendation
  alternatives :: "alternative list"
  within_budget :: bool

text \<open>
  The two shapes of the returned dict: \<^verbatim>\<open>{"error": ...}\<close>, or the recommendation. The
  \<^verbatim>\<open>npk\<close> strings are kept as the three numbers they print.
\<close>

datatype response = Error_response string | Recommendation recommendation

definition npk_of :: "fertilizer \<Rightarrow> real \<times> real \<times> real" where
  "npk_of f = (nitrogen_content f, phosphorus_content f, potassium_content f)"

definition primary_of :: "scored \<Rightarrow> primary_recommendation" where
  "primary_of top_choice =
     \<lparr>pr_fertilizer_name = product_name (fertilizer top_choice),
      pr_npk = npk_of (fertilizer top_choice),
      pr_quantity_kg = application_rate_kg top_choice,
      pr_quantity_bags = py_round (application_rate_kg top_choice / 50) 1,
      pr_total_cost = total_cost top_choice,
      pr_cost_per_acre = cost_per_acre top_choice,
      pr_price_per_kg = price_per_kg (fertilizer top_choice),
      pr_score = py_round (score top_choice) 1,
      pr_application_notes = application_notes (fertilizer top_choice)\<rparr>"

definition alternative_of :: "scored \<Rightarrow> alternative" where
  "alternative_of alt =
     \<lparr>alt_fertilizer_name = product_name (fertilizer alt),
      alt_npk = npk_of (fertilizer alt),
      alt_quantity_kg = application_rate_kg alt,
      alt_total_cost = total_cost alt,
      alt_cost_per_acre = cost_per_acre alt\<rparr>"

definition build_response ::
  "crop \<Rightarrow> soil \<Rightarrow> real \<Rightarrow> real option \<Rightarrow> scored \<Rightarrow> scored list \<Rightarrow> recommendation" where
  "build_response crop soil farm_size_acres budget_total top_choice alts =
     \<lparr>rec_crop = crop_name crop,
      rec_soil = soil_type soil,
      rec_farm_size_acres = farm_size_acres,
      rec_budget_total = budget_total,
      primary = primary_of top_choice,
      alternatives = map alternative_of alts,
      within_budget = (case budget_total of
                         None \<Rightarrow> True
                       | Some b \<Rightarrow> if b \<noteq> 0 then total_cost top_choice \<le> b else True)\<rparr>"

text \<open>
  The candidates of a request: the scored entries, ranked by score. This is the list
  \<^verbatim>\<open>scored_fertilizers\<close> after the first sort.
\<close>

definition candidates ::
  "crop \<Rightarrow> real \<Rightarrow> real option \<Rightarrow> fertilizer list \<Rightarrow> py_error + scored list" where
  "candidates crop farm_size_acres budget_total all_fertilizers =
     (case score_all crop farm_size_acres (budget_per_kg_of budget_total farm_size_acres)
             all_fertilizers of
        Inl e \<Rightarrow> Inl e
      | Inr scored_fertilizers \<Rightarrow> Inr (rank_by_score scored_fertilizers))"

definition get_recommendation ::
  "database \<Rightarrow> string \<Rightarrow> string \<Rightarrow> real \<Rightarrow> real option \<Rightarrow> py_error + response" where
  "get_recommendation db crop_name' soil_type' farm_size_acres budget_total =
     (let crop = get_crop_by_name db crop_name';
          soil = get_soil_by_type db soil_type'
      in case crop of
           None \<Rightarrow> Inr (Error_response (''Crop '' @ crop_name' @ '' not found''))
         | Some crop \<Rightarrow>
             (case soil of
                None \<Rightarrow> Inr (Error_response (''Soil '' @ soil_type' @ '' not found''))
              | Some soil \<Rightarrow>
                  (case candidates crop farm_size_acres budget_total (get_all_fertilizers db) of
                     Inl e \<Rightarrow> Inl e
                   | Inr ranked \<Rightarrow>
                       (case select budget_total ranked of
                          Inl e \<Rightarrow> Inl e
                        | Inr (top_choice, alts) \<Rightarrow>
                            Inr (Recommendation
                                   (build_response crop soil farm_size_acres budget_total
                                      top_choice alts))))))"

subsection \<open>Rows of the sample catalog (\<^verbatim>\<open>init_database.py\<close>)\<close>

text \<open>
  The rows that \<^verbatim>\<open>insert_sample_data\<close> stores, used as concrete inputs below.
  \<open>fertilizer_id\<close> is the row's position in the insert.
\<close>

definition maize :: crop where
  "maize = \<lparr>crop_name = ''Maize'', nitrogen_requirement = 120,
             phosphorus_requirement = 60, potassium_requirement = 60\<rparr>"

definition beans :: crop where
  "beans = \<lparr>crop_name = ''Beans'', nitrogen_requirement = 30,
             phosphorus_requirement = 40, potassium_requirement = 40\<rparr>"

definition loam :: soil where
  "loam = \<lparr>soil_type = ''Loam'', ph_range = ''6.0-7.0'', water_retention = ''Medium''\<rparr>"

definition dap :: fertilizer where
  "dap = \<lparr>fertilizer_id = 1, product_name = ''DAP 18:46:0'', nitrogen_content = 18,
           phosphorus_content = 46, potassium_content = 0, price_per_kg = 120,
           availability = ''Widely available'',
           application_notes = ''Best for basal application. High phosphorus content.''\<rparr>"

definition can :: fertilizer where
  "can = \<lparr>fertilizer_id = 2, product_name = ''CAN 26:0:0'', nitrogen_content = 26,
           phosphorus_content = 0, potassium_content = 0, price_per_kg = 90,
           availability = ''Widely available'',
           application_notes = ''For top dressing. Quick nitrogen release.''\<rparr>"

definition urea :: fertilizer where
  "urea = \<lparr>fertilizer_id = 5, product_name = ''Urea 46:0:0'', nitrogen_content = 46,
            phosphorus_content = 0, potassium_content = 0, price_per_kg = 85,
            availability = ''Very common'',
            application_notes = ''High nitrogen. Apply carefully to avoid burning.''\<rparr>"

definition manure :: fertilizer where
  "manure = \<lparr>fertilizer_id = 7, product_name = ''Manure'', nitrogen_content = 3 / 2,
              phosphorus_content = 1, potassium_content = 3 / 2, price_per_kg = 20,
              availability = ''Locally available'',
              application_notes = ''Organic option. Improves soil structure. Apply well-rotted.''\<rparr>"

text \<open>A catalog of four of the sample fertilizers, in the order of their insertion.\<close>

definition sample_db :: database where
  "sample_db = \<lparr>crops = [maize, beans], soils = [loam],
                 fertilizers = [dap, can, urea, manure]\<rparr>"

text \<open>The same crops and soils with no fertilizer stored.\<close>

definition no_fertilizer_db :: database where
  "no_fertilizer_db = \<lparr>crops = [maize, beans], soils = [loam], fertilizers = []\<rparr>"

text \<open>
  Three inputs that are not rows of the sample data but that the tables accept: a crop
  whose three requirements are zero, and a mineral product and a second manure with the
  nutrient proportions of manure.
\<close>

definition fallow :: crop where
  "fallow = \<lparr>crop_name = ''Fallow'', nitrogen_requirement = 0,
              phosphorus_requirement = 0, potassium_requirement = 0\<rparr>"

definition npk_15_10_15 :: fertilizer where
  "npk_15_10_15 = \<lparr>fertilizer_id = 9, product_name = ''NPK 15:10:15'', nitrogen_content = 15,
                    phosphorus_content = 10, potassium_content = 15, price_per_kg = 110,
                    availability = ''Common'', application_notes = ''Basal application.''\<rparr>"

definition manure_b :: fertilizer where
  "manure_b = \<lparr>fertilizer_id = 10, product_name = ''Manure B'', nitrogen_content = 3,
                phosphorus_content = 2, potassium_content = 3, price_per_kg = 25,
                availability = ''Locally available'', application_notes = ''Apply well-rotted.''\<rparr>"

definition tie_db :: database where
  "tie_db = \<lparr>crops = [maize, fallow], soils = [loam],
              fertilizers = [manure, npk_15_10_15]\<rparr>"

definition one_affordable_db :: database where
  "one_affordable_db = \<lparr>crops = [maize], soils = [loam],
                         fertilizers = [manure, manure_b, npk_15_10_15]\<rparr>"

subsection \<open>Reading a result\<close>

text \<open>
  \<open>has_keyword\<close> is the test of the rate loop. \<open>names_and_scores\<close> lists the candidates
  by product name with their scores; \<open>shown\<close> lists the product names of a recommendation,
  the primary first and the alternatives after it.
\<close>

definition has_keyword :: "string \<Rightarrow> string \<Rightarrow> bool" where
  "has_keyword key fertilizer_name = contains (upper key) (upper fertilizer_name)"

definition name_and_score :: "scored \<Rightarrow> string \<times> real" where
  "name_and_score c = (product_name (fertilizer c), score c)"

definition names_and_scores :: "scored list \<Rightarrow> (string \<times> real) list" where
  "names_and_scores cs = map name_and_score cs"

fun shown :: "response \<Rightarrow> string list" where
  "shown (Error_response msg) = []"
| "shown (Recommendation r) =
     pr_fertilizer_name (primary r) # map alt_fertilizer_name (alternatives r)"

section \<open>Properties\<close>

subsection \<open>Unfolding the model on concrete inputs\<close>

lemmas string_defs = upper_def upper_char_def lower_def lower_char_def

lemmas number_defs = py_div_def py_round_def round_half_even_def Let_def

lemmas assembler_defs = get_recommendation_def candidates_def rank_by_score_def select_def
  affordable_of_def budget_filter_def build_response_def primary_of_def alternative_of_def
  npk_of_def name_and_score_def names_and_scores_def

subsection \<open>Substring test\<close>

lemma starts_with_iff: "starts_with k s \<longleftrightarrow> (\<exists>ss. s = k @ ss)"
  by (induction k s rule: starts_with.induct) auto

text \<open>\<open>contains\<close> is the substring relation.\<close>

lemma contains_iff: "contains k s \<longleftrightarrow> (\<exists>ps ss. s = ps @ k @ ss)"
proof (induction s)
  case Nil
  then show ?case by auto
next
  case (Cons c cs)
  show ?case
  proof
    assume "contains k (c # cs)"
    then consider "starts_with k (c # cs)" | "contains k cs" by auto
    then show "\<exists>ps ss. c # cs = ps @ k @ ss"
    proof cases
      case 1
      then obtain ss where "c # cs = k @ ss" by (auto simp: starts_with_iff)
      then have "c # cs = [] @ k @ ss" by simp
      then show ?thesis by blast
    next
      case 2
      then obtain ps ss where "cs = ps @ k @ ss" using Cons.IH by auto
      then have "c # cs = (c # ps) @ k @ ss" by simp
      then show ?thesis by blast
    qed
  next
    assume "\<exists>ps ss. c # cs = ps @ k @ ss"
    then obtain ps ss where eq: "c # cs = ps @ k @ ss" by blast
    show "contains k (c # cs)"
    proof (cases ps)
      case Nil
      then have "starts_with k (c # cs)" using eq by (auto simp: starts_with_iff)
      then show ?thesis by simp
    next
      case (Cons p ps')
      then have "cs = ps' @ k @ ss" using eq by simp
      then have "contains k cs" using Cons.IH by blast
      then show ?thesis by simp
    qed
  qed
qed

lemma has_keyword_iff:
  "has_keyword key name \<longleftrightarrow> (\<exists>ps ss. upper name = ps @ upper key @ ss)"
  by (simp add: has_keyword_def contains_iff)

subsection \<open>The scorer\<close>

lemma score_fertilizer_returns:
  "nitrogen_requirement crop + phosphorus_requirement crop + potassium_requirement crop \<noteq> 0
   \<Longrightarrow> \<exists>s. score_fertilizer crop fert b = Inr s"
  by (simp add: score_fertilizer_def Let_def)

lemma score_fertilizer_raises:
  "nitrogen_requirement crop + phosphorus_requirement crop + potassium_requirement crop = 0
   \<Longrightarrow> score_fertilizer crop fert b = Inl ZeroDivisionError"
  by (simp add: score_fertilizer_def)

lemma npk_penalty_nonneg: "0 \<le> npk_penalty crop fert"
  by (simp add: npk_penalty_def Let_def)

subsection \<open>The loop over the catalog\<close>

lemma score_all_fertilizer:
  "score_all crop farm b ferts = Inr scored \<Longrightarrow> map fertilizer scored = ferts"
  by (induction ferts arbitrary: scored) (auto simp: Let_def split: sum.splits)

lemma score_all_entries:
  "score_all crop farm b ferts = Inr scored \<Longrightarrow> c \<in> set scored \<Longrightarrow>
     application_rate_kg c = get_fertilizer_rate (product_name (fertilizer c)) farm \<and>
     total_cost c = py_round (cost_of farm (fertilizer c)) 2"
  by (induction ferts arbitrary: scored) (auto simp: Let_def split: sum.splits)

text \<open>
  The loop ends normally exactly when no entry raises: the crop's requirements do not sum
  to zero and the farm size is not zero, or the catalog is empty.
\<close>

lemma score_all_returns:
  assumes "nitrogen_requirement crop + phosphorus_requirement crop
             + potassium_requirement crop \<noteq> 0"
    and "farm \<noteq> 0"
  shows "\<exists>scored. score_all crop farm b ferts = Inr scored"
proof (induction ferts)
  case Nil
  show ?case by simp
next
  case (Cons fert rest)
  from assms(1) obtain s where "score_fertilizer crop fert b = Inr s"
    using score_fertilizer_returns by blast
  moreover from Cons obtain entries where "score_all crop farm b rest = Inr entries" by blast
  ultimately show ?case using assms(2) by (simp add: Let_def py_div_def)
qed

lemma score_all_zero_farm:
  "score_all crop 0 b (fert # rest) = Inl ZeroDivisionError"
proof (cases "score_fertilizer crop fert b")
  case (Inl e)
  then have "e = ZeroDivisionError"
    by (simp add: score_fertilizer_def Let_def split: if_splits)
  then show ?thesis using Inl by (simp add: Let_def)
next
  case (Inr s)
  then show ?thesis by (simp add: Let_def py_div_def)
qed

lemma length_filter_sort_key: "length (filter P (sort_key k xs)) = length (filter P xs)"
proof -
  have "mset (filter P (sort_key k xs)) = mset (filter P xs)" by simp
  then show ?thesis by (rule mset_eq_length)
qed

lemma score_all_passing:
  assumes "score_all crop farm bpk ferts = Inr scored"
  shows "map fertilizer (budget_filter b scored)
           = filter (\<lambda>f. py_round (cost_of farm f) 2 \<le> b) ferts"
proof -
  have "filter (\<lambda>c. total_cost c \<le> b) scored
          = filter ((\<lambda>f. py_round (cost_of farm f) 2 \<le> b) \<circ> fertilizer) scored"
    using score_all_entries [OF assms] by (intro filter_cong) auto
  then have "map fertilizer (budget_filter b scored)
          = filter (\<lambda>f. py_round (cost_of farm f) 2 \<le> b) (map fertilizer scored)"
    by (simp add: budget_filter_def filter_map)
  then show ?thesis using score_all_fertilizer [OF assms] by simp
qed

lemma candidates_passing:
  assumes "candidates crop farm budget_total ferts = Inr ranked"
  shows "length (budget_filter b ranked)
           = length (filter (\<lambda>f. py_round (cost_of farm f) 2 \<le> b) ferts)"
    and "fertilizer ` set (budget_filter b ranked)
           = {f \<in> set ferts. py_round (cost_of farm f) 2 \<le> b}"
    and "length ranked = length ferts"
proof -
  from assms obtain scored where
    sc: "score_all crop farm (budget_per_kg_of budget_total farm) ferts = Inr scored" and
    ranked: "ranked = rank_by_score scored"
    by (auto simp: candidates_def split: sum.splits)
  have "length (budget_filter b ranked) = length (budget_filter b scored)"
    by (simp add: ranked rank_by_score_def budget_filter_def length_filter_sort_key)
  also have "\<dots> = length (map fertilizer (budget_filter b scored))" by simp
  finally show "length (budget_filter b ranked)
           = length (filter (\<lambda>f. py_round (cost_of farm f) 2 \<le> b) ferts)"
    by (simp only: score_all_passing [OF sc])
  have "set (budget_filter b ranked) = set (budget_filter b scored)"
    by (simp add: ranked rank_by_score_def budget_filter_def)
  then have "fertilizer ` set (budget_filter b ranked)
               = set (map fertilizer (budget_filter b scored))" by simp
  then show "fertilizer ` set (budget_filter b ranked)
           = {f \<in> set ferts. py_round (cost_of farm f) 2 \<le> b}"
    by (simp only: score_all_passing [OF sc] set_filter)
  have "length ranked = length (map fertilizer scored)"
    by (simp add: ranked rank_by_score_def)
  then show "length ranked = length ferts"
    by (simp only: score_all_fertilizer [OF sc])
qed

subsection \<open>Ranking and selection\<close>

lemma rank_by_score_stable:
  "filter (\<lambda>c. score c = s) (rank_by_score scored) = filter (\<lambda>c. score c = s) scored"
proof -
  have "filter (\<lambda>c. - score c = - s) (sort_key (\<lambda>x. - score x) scored)
          = filter (\<lambda>c. - score c = - s) scored"
    by (rule sort_key_stable)
  then show ?thesis by (simp add: rank_by_score_def)
qed

lemma select_Nil: "select budget_total [] = Inl IndexError"
  by (simp add: select_def affordable_of_def budget_filter_def split: option.splits)

lemma set_affordable_of: "set (affordable_of budget_total ranked) \<subseteq> set ranked"
  by (auto simp: affordable_of_def budget_filter_def split: option.splits)

lemma select_returns:
  assumes "ranked \<noteq> []"
  shows "\<exists>tc alts. select budget_total ranked = Inr (tc, alts)"
proof (cases "affordable_of budget_total ranked")
  case Nil
  from assms have "sort_key total_cost ranked \<noteq> []"
    by (metis length_sort length_0_conv)
  then obtain x xs where "sort_key total_cost ranked = x # xs"
    by (cases "sort_key total_cost ranked") auto
  then show ?thesis using Nil by (simp add: select_def Let_def numeral_eq_Suc)
next
  case (Cons x xs)
  then show ?thesis by (simp add: select_def Let_def)
qed

lemma select_top_mem:
  assumes "select budget_total ranked = Inr (tc, alts)"
  shows "tc \<in> set ranked"
proof (cases "affordable_of budget_total ranked = []")
  case True
  then have "\<exists>rest. take 3 (sort_key total_cost ranked) = tc # rest"
    using assms by (auto simp: select_def Let_def split: list.splits)
  then have "tc \<in> set (take 3 (sort_key total_cost ranked))" by auto
  then have "tc \<in> set (sort_key total_cost ranked)" by (rule in_set_takeD)
  then show ?thesis by simp
next
  case False
  then have "\<exists>rest. affordable_of budget_total ranked = tc # rest"
    using assms by (auto simp: select_def Let_def split: list.splits)
  then have "tc \<in> set (affordable_of budget_total ranked)" by auto
  then show ?thesis using set_affordable_of by blast
qed

text \<open>In the fallback the top choice is the head of the cost-sorted list.\<close>

lemma select_fallback:
  assumes "select budget_total ranked = Inr (tc, alts)"
    and "affordable_of budget_total ranked = []"
  shows "\<forall>c\<in>set ranked. total_cost tc \<le> total_cost c"
proof -
  let ?s = "sort_key total_cost ranked"
  have "\<exists>rest. take 3 ?s = tc # rest"
    using assms by (auto simp: select_def Let_def split: list.splits)
  then obtain rest where s: "?s = tc # rest" by (cases ?s) auto
  have "sorted (map total_cost ?s)" by (rule sorted_sort_key)
  then have "\<forall>c\<in>set rest. total_cost tc \<le> total_cost c" using s by simp
  then have "\<forall>c\<in>set ?s. total_cost tc \<le> total_cost c" using s by simp
  then show ?thesis by simp
qed

text \<open>
  Outside the fallback, with two candidates or more in \<^verbatim>\<open>affordable\<close> (or with no
  budget), the top choice and the alternatives are the first four of \<^verbatim>\<open>affordable\<close>.
\<close>

lemma select_shown:
  assumes "select budget_total ranked = Inr (tc, alts)"
    and "1 < length (affordable_of budget_total ranked) \<or> budget_total = None"
  shows "tc # alts = take 4 (affordable_of budget_total ranked)"
proof -
  let ?a = "affordable_of budget_total ranked"
  have ne: "?a \<noteq> []"
  proof
    assume e: "?a = []"
    then have "budget_total = None" using assms(2) by auto
    then have "ranked = []" using e by (simp add: affordable_of_def)
    then show False using assms(1) by (simp add: select_Nil)
  qed
  then obtain x rest where a: "?a = x # rest" by (cases ?a) auto
  have sel: "tc = x \<and> alts = (if rest \<noteq> [] then take 3 rest else take 3 (drop 1 ranked))"
    using assms(1) a by (auto simp: select_def Let_def)
  show ?thesis
  proof (cases "rest = []")
    case False
    then show ?thesis using sel a by (simp add: numeral_eq_Suc)
  next
    case True
    then have "budget_total = None" using assms(2) a by auto
    then have "ranked = [x]" using a True by (simp add: affordable_of_def)
    then show ?thesis using sel a True by simp
  qed
qed

text \<open>In the fallback the top choice and the alternatives are the three cheapest.\<close>

lemma select_fallback_shown:
  assumes "select budget_total ranked = Inr (tc, alts)"
    and "affordable_of budget_total ranked = []"
  shows "tc # alts = take 3 (sort_key total_cost ranked)"
proof -
  let ?s = "sort_key total_cost ranked"
  have "\<exists>rest. take 3 ?s = tc # rest"
    using assms by (auto simp: select_def Let_def split: list.splits)
  then obtain x rest where s: "?s = x # rest" by (cases ?s) auto
  show ?thesis
  proof (cases rest)
    case Nil
    then show ?thesis using assms s by (simp add: select_def Let_def)
  next
    case (Cons y ys)
    then show ?thesis using assms s by (simp add: select_def Let_def numeral_eq_Suc)
  qed
qed

text \<open>
  With exactly one candidate in \<^verbatim>\<open>affordable\<close> the alternatives come from the whole
  ranking.
\<close>

lemma select_single:
  assumes "select budget_total ranked = Inr (tc, alts)"
    and "length (affordable_of budget_total ranked) = 1"
  shows "affordable_of budget_total ranked = [tc] \<and> alts = take 3 (drop 1 ranked)"
proof -
  from assms(2) obtain x where a: "affordable_of budget_total ranked = [x]"
    by (cases "affordable_of budget_total ranked") auto
  then show ?thesis using assms(1) by (auto simp: select_def Let_def)
qed

lemma rank_by_score_descending:
  "sorted_wrt (\<lambda>a b. score b \<le> score a) (rank_by_score scored)"
proof -
  have "sorted (map (\<lambda>x. - score x) (sort_key (\<lambda>x. - score x) scored))"
    by (rule sorted_sort_key)
  then show ?thesis by (simp add: rank_by_score_def sorted_map)
qed

lemma subseq_take: "subseq (take n xs) xs"
  by (metis append_take_drop_id prefix_def prefix_imp_subseq)

subsection \<open>The outcomes of a request\<close>

lemma get_recommendation_cases:
  assumes "get_recommendation db cn st farm budget_total = Inr (Recommendation r)"
  obtains crop soil scored tc alts where
    "get_crop_by_name db cn = Some crop" and "get_soil_by_type db st = Some soil" and
    "score_all crop farm (budget_per_kg_of budget_total farm) (get_all_fertilizers db)
       = Inr scored" and
    "select budget_total (rank_by_score scored) = Inr (tc, alts)" and
    "r = build_response crop soil farm budget_total tc alts"
  using assms
  by (auto simp: get_recommendation_def candidates_def Let_def
           split: option.splits sum.splits prod.splits)

text \<open>
  A request returns a recommendation when both lookups succeed, the crop's requirements
  do not sum to zero, the farm size is not zero (it may be negative) and the catalog is
  not empty.
\<close>

lemma get_recommendation_returns:
  assumes "get_crop_by_name db cn = Some crop" and "get_soil_by_type db st = Some soil"
    and "nitrogen_requirement crop + phosphorus_requirement crop
           + potassium_requirement crop \<noteq> 0"
    and "farm \<noteq> 0" and "fertilizers db \<noteq> []"
  shows "\<exists>r. get_recommendation db cn st farm budget_total = Inr (Recommendation r)"
proof -
  obtain scored where
    sc: "score_all crop farm (budget_per_kg_of budget_total farm) (get_all_fertilizers db)
           = Inr scored"
    using score_all_returns [OF assms(3,4)] by blast
  have "length (rank_by_score scored) = length (map fertilizer scored)"
    by (simp add: rank_by_score_def)
  also have "\<dots> = length (fertilizers db)"
    by (simp only: score_all_fertilizer [OF sc]) (simp add: get_all_fertilizers_def)
  finally have "rank_by_score scored \<noteq> []"
    using assms(5) by auto
  then obtain tc alts where "select budget_total (rank_by_score scored) = Inr (tc, alts)"
    using select_returns by blast
  then show ?thesis
    using assms(1,2) sc by (simp add: get_recommendation_def candidates_def)
qed

text \<open>Conversely, a recommendation is returned only from a catalog with a fertilizer.\<close>

lemma recommendation_needs_fertilizer:
  assumes "get_recommendation db cn st farm budget_total = Inr (Recommendation r)"
  shows "fertilizers db \<noteq> []"
proof
  assume empty: "fertilizers db = []"
  from assms obtain crop soil scored tc alts where
    sc: "score_all crop farm (budget_per_kg_of budget_total farm) (get_all_fertilizers db)
           = Inr scored" and
    sel: "select budget_total (rank_by_score scored) = Inr (tc, alts)"
    by (rule get_recommendation_cases)
  from sc empty have "scored = []" by (simp add: get_all_fertilizers_def)
  then show False using sel by (simp add: rank_by_score_def select_Nil)
qed

text \<open>The error dict is returned only when a lookup misses.\<close>

lemma error_response_only_when_missing:
  assumes "get_recommendation db cn st farm budget_total = Inr (Error_response msg)"
  shows "get_crop_by_name db cn = None \<or> get_soil_by_type db st = None"
  using assms
  by (auto simp: get_recommendation_def Let_def split: option.splits sum.splits prod.splits)

text \<open>
  At a farm size of zero every request that reaches the loop with a fertilizer to score
  raises.
\<close>

lemma zero_farm_size_request:
  assumes "get_crop_by_name db cn = Some crop" and "get_soil_by_type db st = Some soil"
    and "fertilizers db \<noteq> []"
  shows "get_recommendation db cn st 0 budget_total = Inl ZeroDivisionError"
proof -
  have "length (get_all_fertilizers db) = length (fertilizers db)"
    by (simp add: get_all_fertilizers_def)
  then have "get_all_fertilizers db \<noteq> []" using assms(3) by auto
  then obtain fert rest where "get_all_fertilizers db = fert # rest"
    by (cases "get_all_fertilizers db") auto
  then have "candidates crop 0 budget_total (get_all_fertilizers db) = Inl ZeroDivisionError"
    by (simp add: candidates_def score_all_zero_farm del: score_all.simps)
  then show ?thesis using assms(1,2) by (simp add: get_recommendation_def)
qed

subsection \<open>The sample inputs\<close>

text \<open>
  The rates, lookups and catalog listings of the sample rows, computed once. The catalog
  is listed by ascending price.
\<close>

lemma sample_rates:
  "get_fertilizer_rate ''DAP 18:46:0'' x = 50 * x"
  "get_fertilizer_rate ''CAN 26:0:0'' x = 50 * x"
  "get_fertilizer_rate ''Urea 46:0:0'' x = 50 * x"
  "get_fertilizer_rate ''Manure'' x = 2000 * x"
  "get_fertilizer_rate ''NPK 15:10:15'' x = 50 * x"
  "get_fertilizer_rate ''Manure B'' x = 2000 * x"
  by (simp_all add: get_fertilizer_rate_def standard_rates_def string_defs)

lemma sample_lookups:
  "get_crop_by_name sample_db ''Maize'' = Some maize"
  "get_crop_by_name sample_db ''Rice'' = None"
  "get_soil_by_type sample_db ''Loam'' = Some loam"
  "get_crop_by_name tie_db ''Maize'' = Some maize"
  "get_crop_by_name tie_db ''Fallow'' = Some fallow"
  "get_soil_by_type tie_db ''Loam'' = Some loam"
  "get_crop_by_name no_fertilizer_db ''Maize'' = Some maize"
  "get_soil_by_type no_fertilizer_db ''Loam'' = Some loam"
  "get_crop_by_name one_affordable_db ''Maize'' = Some maize"
  "get_soil_by_type one_affordable_db ''Loam'' = Some loam"
  by (simp_all add: get_crop_by_name_def get_soil_by_type_def sample_db_def tie_db_def
        no_fertilizer_db_def one_affordable_db_def maize_def beans_def fallow_def loam_def string_defs)

lemma sample_catalogs:
  "get_all_fertilizers sample_db = [manure, urea, can, dap]"
  "get_all_fertilizers tie_db = [manure, npk_15_10_15]"
  "get_all_fertilizers no_fertilizer_db = []"
  "get_all_fertilizers one_affordable_db = [manure, manure_b, npk_15_10_15]"
  by (simp_all add: get_all_fertilizers_def sample_db_def tie_db_def no_fertilizer_db_def
        one_affordable_db_def dap_def can_def urea_def manure_def manure_b_def
        npk_15_10_15_def)

lemmas run_defs = sample_lookups sample_catalogs sample_rates
  maize_def fallow_def loam_def dap_def can_def urea_def manure_def manure_b_def
  npk_15_10_15_def number_defs cost_of_def score_fertilizer_def npk_penalty_def price_penalty_def
  budget_per_kg_of_def assembler_defs

section \<open>The claims\<close>

text \<open>
  Claim C1. For every crop whose nitrogen, phosphorus and potassium requirements sum to
  zero, the scorer returns a defined fallback score (the ratio term skipped) rather than
  a division-by-zero fault.

  The code has no such guard for the crop, although it has one for the fertilizer
  (\<^verbatim>\<open>if total_npk > 0\<close>): the crop ratios are computed first and unconditionally. At the
  crop \<open>fallow\<close> (requirements 0, 0, 0) and the sample fertilizer \<open>dap\<close> the scorer raises
  \<^verbatim>\<open>ZeroDivisionError\<close>, and so does the whole request for that crop.
\<close>

theorem zero_sum_crop_raises:
  "score_fertilizer fallow dap None = Inl ZeroDivisionError \<and>
   get_recommendation tie_db ''Fallow'' ''Loam'' 2 None = Inl ZeroDivisionError"
  by (simp add: run_defs)

text \<open>
  Claim C2. The rate resolver scans the keywords in the order DAP, CAN, NPK, Urea, TSP,
  Manure, Compost, takes the rate of the first keyword that occurs in the product name
  without regard to case (50 for the first five, 2000 for Manure and Compost), takes 50
  when none occurs, and returns that rate times the farm size.
\<close>

theorem rate_of_first_keyword:
  "get_fertilizer_rate fertilizer_name farm_size_acres =
     (if has_keyword ''DAP'' fertilizer_name then 50
      else if has_keyword ''CAN'' fertilizer_name then 50
      else if has_keyword ''NPK'' fertilizer_name then 50
      else if has_keyword ''Urea'' fertilizer_name then 50
      else if has_keyword ''TSP'' fertilizer_name then 50
      else if has_keyword ''Manure'' fertilizer_name then 2000
      else if has_keyword ''Compost'' fertilizer_name then 2000
      else 50) * farm_size_acres"
  by (simp add: get_fertilizer_rate_def standard_rates_def has_keyword_def)

text \<open>
  An instance: ``Farmyard manure'' holds none of the first five keywords and holds
  ``Manure'', so two acres take 4000 kg.
\<close>

theorem rate_of_first_keyword_witness:
  "get_fertilizer_rate ''Farmyard manure'' 2 = 4000"
  using rate_of_first_keyword [of "''Farmyard manure''" 2]
  by (simp add: has_keyword_def string_defs)

text \<open>
  Claim C3. For a request with a total budget that no candidate's total cost is within,
  the primary recommendation has the least total cost of all candidates.

  A budget is given when \<^verbatim>\<open>if budget_total:\<close> holds, that is for a number other than
  zero. The total cost of a candidate is the rounded \<open>cost_of\<close> of its fertilizer. The
  primary recommendation is one of the catalog's fertilizers, and no fertilizer of the
  catalog costs less.
\<close>

theorem fallback_primary_is_cheapest:
  assumes "get_recommendation db cn st farm_size_acres (Some b) = Inr (Recommendation r)"
    and "b \<noteq> 0"
    and "\<forall>f\<in>set (get_all_fertilizers db). \<not> py_round (cost_of farm_size_acres f) 2 \<le> b"
  shows "(\<forall>f\<in>set (get_all_fertilizers db).
            pr_total_cost (primary r) \<le> py_round (cost_of farm_size_acres f) 2) \<and>
         (\<exists>f\<in>set (get_all_fertilizers db).
            pr_fertilizer_name (primary r) = product_name f \<and>
            pr_total_cost (primary r) = py_round (cost_of farm_size_acres f) 2)"
proof -
  from assms(1) obtain crop soil scored tc alts where
    sc: "score_all crop farm_size_acres (budget_per_kg_of (Some b) farm_size_acres)
           (get_all_fertilizers db) = Inr scored" and
    sel: "select (Some b) (rank_by_score scored) = Inr (tc, alts)" and
    r: "r = build_response crop soil farm_size_acres (Some b) tc alts"
    by (rule get_recommendation_cases)
  have ferts: "map fertilizer scored = get_all_fertilizers db"
    using sc by (rule score_all_fertilizer)
  have cost: "total_cost c = py_round (cost_of farm_size_acres (fertilizer c)) 2"
    if "c \<in> set scored" for c
    using score_all_entries [OF sc that] by simp
  have mem: "fertilizer c \<in> set (get_all_fertilizers db)" if "c \<in> set scored" for c
    using that ferts by (metis image_eqI set_map)
  have "budget_filter b (rank_by_score scored) = []"
    using assms(3) cost mem by (auto simp: budget_filter_def rank_by_score_def filter_empty_conv)
  then have none: "affordable_of (Some b) (rank_by_score scored) = []"
    using assms(2) by (simp add: affordable_of_def)
  have least: "\<forall>c\<in>set scored. total_cost tc \<le> total_cost c"
    using select_fallback [OF sel none] by (simp add: rank_by_score_def)
  have tc: "tc \<in> set scored"
    using select_top_mem [OF sel] by (simp add: rank_by_score_def)
  have pr: "pr_total_cost (primary r) = total_cost tc"
    "pr_fertilizer_name (primary r) = product_name (fertilizer tc)"
    by (simp_all add: r build_response_def primary_of_def)
  have "pr_total_cost (primary r) \<le> py_round (cost_of farm_size_acres f) 2"
    if "f \<in> set (get_all_fertilizers db)" for f
  proof -
    from that ferts obtain c where "c \<in> set scored" "fertilizer c = f"
      by (metis imageE set_map)
    then show ?thesis using least cost pr by auto
  qed
  moreover have "\<exists>f\<in>set (get_all_fertilizers db).
            pr_fertilizer_name (primary r) = product_name f \<and>
            pr_total_cost (primary r) = py_round (cost_of farm_size_acres f) 2"
    using tc mem cost pr by auto
  ultimately show ?thesis by blast
qed

text \<open>
  An instance: maize on two acres of loam with a budget of 100. The four fertilizers of
  \<open>sample_db\<close> cost 8500 and more, and the primary costs no more than \<open>dap\<close> or
  \<open>manure\<close>.
\<close>

theorem fallback_primary_is_cheapest_witness:
  "\<exists>r. get_recommendation sample_db ''Maize'' ''Loam'' 2 (Some 100) = Inr (Recommendation r) \<and>
       pr_total_cost (primary r) \<le> py_round (cost_of 2 dap) 2 \<and>
       pr_total_cost (primary r) \<le> py_round (cost_of 2 manure) 2"
proof -
  have "\<exists>r. get_recommendation sample_db ''Maize'' ''Loam'' 2 (Some 100)
               = Inr (Recommendation r)"
    by (simp add: run_defs)
  then obtain r where
    run: "get_recommendation sample_db ''Maize'' ''Loam'' 2 (Some 100) = Inr (Recommendation r)"
    by blast
  have given: "(100::real) \<noteq> 0" by simp
  have none: "\<forall>f\<in>set (get_all_fertilizers sample_db). \<not> py_round (cost_of 2 f) 2 \<le> 100"
    by (simp add: run_defs)
  have mem: "dap \<in> set (get_all_fertilizers sample_db)"
    "manure \<in> set (get_all_fertilizers sample_db)"
    by (simp_all add: sample_catalogs)
  have "\<forall>f\<in>set (get_all_fertilizers sample_db).
          pr_total_cost (primary r) \<le> py_round (cost_of 2 f) 2"
    using fallback_primary_is_cheapest [OF run given none] by simp
  then have "pr_total_cost (primary r) \<le> py_round (cost_of 2 dap) 2 \<and>
             pr_total_cost (primary r) \<le> py_round (cost_of 2 manure) 2"
    using mem by blast
  then show ?thesis using run by blast
qed

text \<open>
  Claim C4. For every crop, fertilizer and optional positive \<open>budget_per_kg\<close>, the score
  returned lies in [0, 100]: it is 100 less a nutrient-ratio penalty of at most 60 and a
  budget penalty of at most 40, the latter subtracted only when the price per kg exceeds
  \<open>budget_per_kg\<close>, floored at 0.

  The two penalties are \<open>npk_deduction\<close> and \<open>budget_deduction\<close>. The score is 100 less
  the two, floored at 0; the first lies in [0, 60] and the second in [0, 40]; the second
  is not zero exactly when a ceiling is given and the price exceeds it. So the score
  without a ceiling is 100 less the first penalty, a price at or under the ceiling gives
  that same score, and a price over it lowers that score by at most 40.

  The scorer returns a score exactly for the crops whose requirements do not sum to zero
  (\<open>score_fertilizer_returns\<close>, \<open>score_fertilizer_raises\<close>).
\<close>

theorem score_within_bounds:
  assumes "score_fertilizer crop fert budget_per_kg = Inr s"
    and "\<forall>b. budget_per_kg = Some b \<longrightarrow> 0 < b"
  shows "0 \<le> s \<and> s \<le> 100 \<and>
         s = max (100 - npk_deduction crop fert - budget_deduction fert budget_per_kg) 0 \<and>
         0 \<le> npk_deduction crop fert \<and> npk_deduction crop fert \<le> 60 \<and>
         0 \<le> budget_deduction fert budget_per_kg \<and>
         budget_deduction fert budget_per_kg \<le> 40 \<and>
         (budget_deduction fert budget_per_kg \<noteq> 0
            \<longleftrightarrow> (\<exists>b. budget_per_kg = Some b \<and> b < price_per_kg fert)) \<and>
         score_fertilizer crop fert None = Inr (100 - npk_deduction crop fert) \<and>
         (\<forall>b. budget_per_kg = Some b \<longrightarrow> price_per_kg fert \<le> b
            \<longrightarrow> s = 100 - npk_deduction crop fert) \<and>
         (\<forall>b. budget_per_kg = Some b \<longrightarrow> b < price_per_kg fert
            \<longrightarrow> s = 100 - npk_deduction crop fert - min (price_penalty fert b) 40
                \<and> s < 100 - npk_deduction crop fert) \<and>
         100 - npk_deduction crop fert - 40 \<le> s \<and> s \<le> 100 - npk_deduction crop fert"
proof -
  let ?n = "npk_deduction crop fert"
  let ?p = "budget_deduction fert budget_per_kg"
  have nz: "nitrogen_requirement crop + phosphorus_requirement crop
              + potassium_requirement crop \<noteq> 0"
    using assms(1) by (auto simp: score_fertilizer_def split: if_splits)
  have s: "s = max (100 - ?n - ?p) 0"
    using assms(1)
    by (auto simp: score_fertilizer_def Let_def npk_deduction_def budget_deduction_def
             split: if_splits option.splits)
  have n0: "0 \<le> ?n" and n60: "?n \<le> 60"
    using npk_penalty_nonneg [of crop fert] by (auto simp: npk_deduction_def Let_def)
  have pen: "0 < price_penalty fert b" if "budget_per_kg = Some b" "b < price_per_kg fert" for b
  proof -
    have "0 < b" using assms(2) that(1) by simp
    then show ?thesis using that(2) by (simp add: price_penalty_def Let_def)
  qed
  have over: "?p = min (price_penalty fert b) 40 \<and> 0 < ?p"
    if "budget_per_kg = Some b" "b < price_per_kg fert" for b
  proof -
    have "0 < b" using assms(2) that(1) by simp
    then show ?thesis using that pen [OF that] by (simp add: budget_deduction_def)
  qed
  have under: "?p = 0" if "budget_per_kg = Some b" "price_per_kg fert \<le> b" for b
    using that by (simp add: budget_deduction_def)
  have none: "?p = 0" if "budget_per_kg = None"
    using that by (simp add: budget_deduction_def)
  have p0: "0 \<le> ?p"
  proof (cases budget_per_kg)
    case None
    then show ?thesis using none by simp
  next
    case (Some b)
    show ?thesis
    proof (cases "b < price_per_kg fert")
      case True
      then have "0 < ?p" using over [OF Some] by blast
      then show ?thesis by (rule less_imp_le)
    next
      case False
      then have "?p = 0" using under [OF Some] by simp
      then show ?thesis by (simp only:)
    qed
  qed
  have p40: "?p \<le> 40"
    by (auto simp: budget_deduction_def split: option.splits)
  have iff: "?p \<noteq> 0 \<longleftrightarrow> (\<exists>b. budget_per_kg = Some b \<and> b < price_per_kg fert)"
  proof
    assume "?p \<noteq> 0"
    then show "\<exists>b. budget_per_kg = Some b \<and> b < price_per_kg fert"
      by (auto simp: budget_deduction_def split: option.splits if_splits)
  next
    assume "\<exists>b. budget_per_kg = Some b \<and> b < price_per_kg fert"
    then obtain b where "budget_per_kg = Some b" "b < price_per_kg fert" by blast
    then show "?p \<noteq> 0" using over by fastforce
  qed
  have s': "s = 100 - ?n - ?p" using s n60 p40 by simp
  have base: "score_fertilizer crop fert None = Inr (100 - ?n)"
    using nz n60 by (simp add: score_fertilizer_def Let_def npk_deduction_def)
  have cheap: "\<forall>b. budget_per_kg = Some b \<longrightarrow> price_per_kg fert \<le> b \<longrightarrow> s = 100 - ?n"
    using s' under by simp
  have dear: "\<forall>b. budget_per_kg = Some b \<longrightarrow> b < price_per_kg fert
                \<longrightarrow> s = 100 - ?n - min (price_penalty fert b) 40 \<and> s < 100 - ?n"
    using s' over by fastforce
  have "0 \<le> s" using s by simp
  moreover have "s \<le> 100" using s' n0 p0 by simp
  moreover have "100 - ?n - 40 \<le> s" using s' p40 by simp
  moreover have "s \<le> 100 - ?n" using s' p0 by simp
  ultimately show ?thesis using s n0 n60 p0 p40 iff base cheap dear by blast
qed

text \<open>
  An instance: maize against \<open>dap\<close> with 100 per kg as the ceiling. The ratio penalty is
  28.125, the budget penalty is 8 and the score is 63.875.
\<close>

theorem score_within_bounds_witness:
  "score_fertilizer maize dap (Some 100) = Inr (511 / 8) \<and>
   (0::real) \<le> 511 / 8 \<and> (511 / 8 :: real) \<le> 100 \<and>
   npk_deduction maize dap = 225 / 8 \<and> budget_deduction dap (Some 100) = 8 \<and>
   511 / 8 = max (100 - npk_deduction maize dap - budget_deduction dap (Some 100)) 0 \<and>
   score_fertilizer maize dap None = Inr (100 - npk_deduction maize dap)"
proof -
  have run: "score_fertilizer maize dap (Some 100) = Inr (511 / 8)"
    by (simp add: run_defs)
  have pos: "\<forall>b. Some (100::real) = Some b \<longrightarrow> 0 < b" by simp
  have n: "npk_deduction maize dap = 225 / 8"
    by (simp add: npk_deduction_def run_defs)
  have p: "budget_deduction dap (Some 100) = 8"
    by (simp add: budget_deduction_def run_defs)
  show ?thesis using score_within_bounds [OF run pos] run n p by blast
qed

text \<open>
  Claim C5. For every request with a farm size of zero or less and a valid crop and soil,
  the request completes without an arithmetic fault and carries the zero or negative
  quantities and costs into the result.

  The code guards the division of \<^verbatim>\<open>budget_per_kg\<close> against a zero farm size
  (\<^verbatim>\<open>if budget_total and farm_size_acres\<close>) and leaves the division of
  \<^verbatim>\<open>cost_per_acre\<close> unguarded: at a farm size of 0 the request for maize on loam raises
  \<^verbatim>\<open>ZeroDivisionError\<close>, with or without a budget, as does every request at that farm
  size on a catalog that is not empty (\<open>zero_farm_size_request\<close>). Negative farm sizes do
  complete (\<open>get_recommendation_returns\<close>).
\<close>

theorem zero_farm_size_raises:
  "get_recommendation sample_db ''Maize'' ''Loam'' 0 None = Inl ZeroDivisionError \<and>
   get_recommendation sample_db ''Maize'' ''Loam'' 0 (Some 10000) = Inl ZeroDivisionError"
  by (simp add: run_defs)

text \<open>
  Claim C6. For every request whose crop name or soil type has no match in the catalog,
  the result is the not-found error: it is returned at once, it is neither an exception
  nor a recommendation, and it carries the message and nothing else. The crop is
  reported first when both are missing. No other request gives this result
  (\<open>error_response_only_when_missing\<close>).
\<close>

theorem not_found_is_error_response:
  assumes "get_crop_by_name db cn = None \<or> get_soil_by_type db st = None"
  shows "get_recommendation db cn st farm_size_acres budget_total =
           Inr (Error_response
                  (if get_crop_by_name db cn = None then ''Crop '' @ cn @ '' not found''
                   else ''Soil '' @ st @ '' not found''))"
  using assms by (auto simp: get_recommendation_def Let_def split: option.splits)

text \<open>An instance: the sample catalog has no crop ``Rice''.\<close>

theorem not_found_is_error_response_witness:
  "get_crop_by_name sample_db ''Rice'' = None \<and>
   get_recommendation sample_db ''Rice'' ''Loam'' 2 (Some 10000)
     = Inr (Error_response ''Crop Rice not found'')"
proof -
  have miss: "get_crop_by_name sample_db ''Rice'' = None"
    by (simp add: sample_lookups)
  then have "get_crop_by_name sample_db ''Rice'' = None
             \<or> get_soil_by_type sample_db ''Loam'' = None" by simp
  from not_found_is_error_response [OF this, of 2 "Some 10000"] miss
  show ?thesis by simp
qed

text \<open>
  Claim C7. For every catalog and request, candidates of equal score appear in the
  score-descending ranking, and hence among the primary and the alternatives, in their
  catalog order: the sort is stable.

  The ranking does keep ties in catalog order. The primary and the alternatives do not
  always: when no candidate is within the budget the code sorts the candidates again, by
  total cost, and reads the primary and the alternatives from that list. On \<open>tie_db\<close>
  (catalog order ``Manure'', ``NPK 15:10:15'') for maize on one acre with a budget of
  100, both candidates score 52.5, neither is within the budget, and the recommendation
  shows ``NPK 15:10:15'' before ``Manure''.
\<close>

theorem fallback_reorders_ties:
  "map product_name (get_all_fertilizers tie_db) = [''Manure'', ''NPK 15:10:15''] \<and>
   map_sum id names_and_scores (candidates maize 1 (Some 100) (get_all_fertilizers tie_db))
     = Inr [(''Manure'', 105 / 2), (''NPK 15:10:15'', 105 / 2)] \<and>
   map_sum id shown (get_recommendation tie_db ''Maize'' ''Loam'' 1 (Some 100))
     = Inr [''NPK 15:10:15'', ''Manure'']"
  by (simp add: run_defs)

text \<open>
  A second case where the order is not kept: exactly one candidate passes the budget
  filter. The alternatives are then read from the second to fourth places of the whole
  ranking. On \<open>one_affordable_db\<close> (catalog order ``Manure'', ``Manure B'',
  ``NPK 15:10:15'') for maize on one acre with a budget of 6000, the three candidates
  score 92.5, only ``NPK 15:10:15'' passes the filter, and the recommendation shows it
  before ``Manure B'' and once more after it.
\<close>

lemma single_affordable_repeats_primary:
  "map product_name (get_all_fertilizers one_affordable_db)
     = [''Manure'', ''Manure B'', ''NPK 15:10:15''] \<and>
   map_sum id names_and_scores
       (candidates maize 1 (Some 6000) (get_all_fertilizers one_affordable_db))
     = Inr [(''Manure'', 185 / 2), (''Manure B'', 185 / 2), (''NPK 15:10:15'', 185 / 2)] \<and>
   map_sum id (\<lambda>ranked. length (affordable_of (Some 6000) ranked))
       (candidates maize 1 (Some 6000) (get_all_fertilizers one_affordable_db))
     = Inr 1 \<and>
   map_sum id shown (get_recommendation one_affordable_db ''Maize'' ''Loam'' 1 (Some 6000))
     = Inr [''NPK 15:10:15'', ''Manure B'', ''NPK 15:10:15'']"
  by (simp add: run_defs)

text \<open>
  Claim C7 as amended. The entries \<open>scored\<close> are in catalog order. The ranking holds the
  same entries by descending score, and the candidates of any one score keep their
  catalog order in it. What the recommendation shows, the primary followed by the
  alternatives, depends on \<open>affordable\<close>, the ranking after the budget filter:
  \<^item> with two candidates or more in it, or with no budget, it is the first four of
    \<open>affordable\<close>, and candidates of one score are in catalog order;
  \<^item> with none in it (the fallback), it is the first three of the candidates sorted by
    total cost, so in ascending order of total cost;
  \<^item> with exactly one in it, the primary is that candidate and the alternatives are the
    second to fourth of the whole ranking; no order is stated for this case.
\<close>

theorem ranking_keeps_catalog_order:
  assumes "score_all crop farm_size_acres budget_per_kg all_fertilizers = Inr scored"
    and "ranked = rank_by_score scored"
    and "affordable = affordable_of budget_total ranked"
  shows "map fertilizer scored = all_fertilizers \<and>
         mset ranked = mset scored \<and>
         sorted_wrt (\<lambda>a b. score b \<le> score a) ranked \<and>
         filter (\<lambda>c. score c = s) ranked = filter (\<lambda>c. score c = s) scored \<and>
         (select budget_total ranked = Inr (tc, alts) \<longrightarrow>
            (1 < length affordable \<or> budget_total = None \<longrightarrow>
               tc # alts = take 4 affordable \<and>
               subseq (filter (\<lambda>c. score c = s) (tc # alts))
                      (filter (\<lambda>c. score c = s) scored)) \<and>
            (affordable = [] \<longrightarrow>
               tc # alts = take 3 (sort_key total_cost ranked) \<and>
               sorted (map total_cost (tc # alts))) \<and>
            (length affordable = 1 \<longrightarrow>
               affordable = [tc] \<and> alts = take 3 (drop 1 ranked)))"
proof -
  let ?tie = "\<lambda>c. score c = s"
  have stable: "filter ?tie ranked = filter ?tie scored"
    unfolding assms(2) by (rule rank_by_score_stable)
  have perm: "mset ranked = mset scored"
    by (simp add: assms(2) rank_by_score_def)
  have desc: "sorted_wrt (\<lambda>a b. score b \<le> score a) ranked"
    unfolding assms(2) by (rule rank_by_score_descending)
  have many: "tc # alts = take 4 affordable \<and>
              subseq (filter ?tie (tc # alts)) (filter ?tie scored)"
    if sel: "select budget_total ranked = Inr (tc, alts)"
      and two: "1 < length affordable \<or> budget_total = None"
  proof -
    have shown: "tc # alts = take 4 affordable"
      using sel two unfolding assms(3) by (rule select_shown)
    then have "subseq (tc # alts) affordable" by (simp only: subseq_take)
    moreover have "subseq affordable ranked"
      by (auto simp: assms(3) affordable_of_def budget_filter_def split: option.splits)
    ultimately have "subseq (tc # alts) ranked" by (rule subseq_order.trans)
    then have "subseq (filter ?tie (tc # alts)) (filter ?tie ranked)"
      by (rule subseq_filter)
    then show ?thesis using shown by (simp only: stable)
  qed
  have none: "tc # alts = take 3 (sort_key total_cost ranked) \<and>
              sorted (map total_cost (tc # alts))"
    if sel: "select budget_total ranked = Inr (tc, alts)" and e: "affordable = []"
  proof -
    have shown: "tc # alts = take 3 (sort_key total_cost ranked)"
      using sel e unfolding assms(3) by (rule select_fallback_shown)
    have "sorted (take 3 (map total_cost (sort_key total_cost ranked)))"
      by (rule sorted_wrt_take) (rule sorted_sort_key)
    then have "sorted (map total_cost (take 3 (sort_key total_cost ranked)))"
      by (simp only: take_map)
    then show ?thesis using shown by simp
  qed
  have one: "affordable = [tc] \<and> alts = take 3 (drop 1 ranked)"
    if sel: "select budget_total ranked = Inr (tc, alts)" and l: "length affordable = 1"
    using sel l unfolding assms(3) by (rule select_single)
  show ?thesis
    using score_all_fertilizer [OF assms(1)] perm desc stable many none one by blast
qed

text \<open>
  Two instances. Maize on two acres with a budget of 10000: ``Urea 46:0:0'' and
  ``CAN 26:0:0'' both score 70, both pass the filter and are shown in catalog order.
  Maize on one acre of \<open>tie_db\<close> with a budget of 100: nothing passes, and the two
  candidates are shown by ascending total cost.
\<close>

theorem ranking_keeps_catalog_order_witness:
  "(\<exists>scored tc alts.
      score_all maize 2 (budget_per_kg_of (Some 10000) 2) (get_all_fertilizers sample_db)
        = Inr scored \<and>
      select (Some 10000) (rank_by_score scored) = Inr (tc, alts) \<and>
      1 < length (affordable_of (Some 10000) (rank_by_score scored)) \<and>
      map fertilizer scored = get_all_fertilizers sample_db \<and>
      subseq (filter (\<lambda>c. score c = 70) (tc # alts)) (filter (\<lambda>c. score c = 70) scored)) \<and>
   (\<exists>scored tc alts.
      score_all maize 1 (budget_per_kg_of (Some 100) 1) (get_all_fertilizers tie_db)
        = Inr scored \<and>
      select (Some 100) (rank_by_score scored) = Inr (tc, alts) \<and>
      affordable_of (Some 100) (rank_by_score scored) = [] \<and>
      sorted (map total_cost (tc # alts)))"
proof -
  have "\<exists>scored tc alts.
     score_all maize 2 (budget_per_kg_of (Some 10000) 2) (get_all_fertilizers sample_db)
       = Inr scored \<and>
     select (Some 10000) (rank_by_score scored) = Inr (tc, alts) \<and>
     1 < length (affordable_of (Some 10000) (rank_by_score scored))"
    by (simp add: run_defs)
  then obtain scored tc alts where
    sc: "score_all maize 2 (budget_per_kg_of (Some 10000) 2) (get_all_fertilizers sample_db)
           = Inr scored" and
    sel: "select (Some 10000) (rank_by_score scored) = Inr (tc, alts)" and
    two: "1 < length (affordable_of (Some 10000) (rank_by_score scored))"
    by blast
  from ranking_keeps_catalog_order [OF sc refl refl,
      where s = 70 and budget_total = "Some 10000" and tc = tc and alts = alts] sel two
  have "map fertilizer scored = get_all_fertilizers sample_db \<and>
        subseq (filter (\<lambda>c. score c = 70) (tc # alts)) (filter (\<lambda>c. score c = 70) scored)"
    by blast
  then have first: "\<exists>scored tc alts.
      score_all maize 2 (budget_per_kg_of (Some 10000) 2) (get_all_fertilizers sample_db)
        = Inr scored \<and>
      select (Some 10000) (rank_by_score scored) = Inr (tc, alts) \<and>
      1 < length (affordable_of (Some 10000) (rank_by_score scored)) \<and>
      map fertilizer scored = get_all_fertilizers sample_db \<and>
      subseq (filter (\<lambda>c. score c = 70) (tc # alts)) (filter (\<lambda>c. score c = 70) scored)"
    using sc sel two by blast
  have "\<exists>scored tc alts.
      score_all maize 1 (budget_per_kg_of (Some 100) 1) (get_all_fertilizers tie_db)
        = Inr scored \<and>
      select (Some 100) (rank_by_score scored) = Inr (tc, alts) \<and>
      affordable_of (Some 100) (rank_by_score scored) = []"
    by (simp add: run_defs)
  then obtain scored' tc' alts' where
    sc': "score_all maize 1 (budget_per_kg_of (Some 100) 1) (get_all_fertilizers tie_db)
            = Inr scored'" and
    sel': "select (Some 100) (rank_by_score scored') = Inr (tc', alts')" and
    e': "affordable_of (Some 100) (rank_by_score scored') = []"
    by blast
  from ranking_keeps_catalog_order [OF sc' refl refl,
      where s = 0 and budget_total = "Some 100" and tc = tc' and alts = alts'] sel' e'
  have "sorted (map total_cost (tc' # alts'))" by blast
  then have second: "\<exists>scored tc alts.
      score_all maize 1 (budget_per_kg_of (Some 100) 1) (get_all_fertilizers tie_db)
        = Inr scored \<and>
      select (Some 100) (rank_by_score scored) = Inr (tc, alts) \<and>
      affordable_of (Some 100) (rank_by_score scored) = [] \<and>
      sorted (map total_cost (tc # alts))"
    using sc' sel' e' by blast
  show ?thesis using first second by blast
qed

text \<open>
  Claim C8. For a fixed crop, farm size and catalog, a larger \<open>budget_total\<close> never lets
  fewer candidates pass the affordability filter (total cost at most \<open>budget_total\<close>).

  The candidates of the two requests differ in score and order, not in cost: as many
  pass, and the fertilizers that pass under the smaller budget pass under the larger.
  The filter is applied when \<^verbatim>\<open>if budget_total:\<close> holds; for a smaller budget other than
  zero the list \<^verbatim>\<open>affordable\<close> itself is no longer under the larger budget.
\<close>

theorem budget_filter_monotone:
  assumes "candidates crop farm_size_acres (Some b1) all_fertilizers = Inr ranked1"
    and "candidates crop farm_size_acres (Some b2) all_fertilizers = Inr ranked2"
    and "b1 \<le> b2"
  shows "length (budget_filter b1 ranked1) \<le> length (budget_filter b2 ranked2) \<and>
         fertilizer ` set (budget_filter b1 ranked1)
           \<subseteq> fertilizer ` set (budget_filter b2 ranked2) \<and>
         (b1 \<noteq> 0 \<longrightarrow>
            length (affordable_of (Some b1) ranked1) \<le> length (affordable_of (Some b2) ranked2))"
proof -
  let ?cost = "\<lambda>f. py_round (cost_of farm_size_acres f) 2"
  have "length (filter (\<lambda>f. ?cost f \<le> b1) all_fertilizers)
          \<le> length (filter (\<lambda>f. ?cost f \<le> b2) all_fertilizers)"
    using assms(3) by (induction all_fertilizers) auto
  then have len: "length (budget_filter b1 ranked1) \<le> length (budget_filter b2 ranked2)"
    by (simp only: candidates_passing(1) [OF assms(1)] candidates_passing(1) [OF assms(2)])
  have "{f \<in> set all_fertilizers. ?cost f \<le> b1} \<subseteq> {f \<in> set all_fertilizers. ?cost f \<le> b2}"
    using assms(3) by auto
  then have sub: "fertilizer ` set (budget_filter b1 ranked1)
           \<subseteq> fertilizer ` set (budget_filter b2 ranked2)"
    by (simp only: candidates_passing(2) [OF assms(1)] candidates_passing(2) [OF assms(2)])
  have "length (budget_filter b1 ranked1) \<le> length ranked2"
    using candidates_passing(3) [OF assms(1)] candidates_passing(3) [OF assms(2)]
      length_filter_le [of "\<lambda>f. total_cost f \<le> b1" ranked1]
    by (simp add: budget_filter_def)
  then have "b1 \<noteq> 0 \<longrightarrow>
            length (affordable_of (Some b1) ranked1) \<le> length (affordable_of (Some b2) ranked2)"
    using len by (simp add: affordable_of_def)
  then show ?thesis using len sub by blast
qed

text \<open>
  An instance: maize on two acres, the budget raised from 8500 to 9000. One candidate
  passes at 8500 and two at 9000.
\<close>

theorem budget_filter_monotone_witness:
  "\<exists>ranked1 ranked2.
     candidates maize 2 (Some 8500) (get_all_fertilizers sample_db) = Inr ranked1 \<and>
     candidates maize 2 (Some 9000) (get_all_fertilizers sample_db) = Inr ranked2 \<and>
     length (budget_filter 8500 ranked1) = 1 \<and> length (budget_filter 9000 ranked2) = 2 \<and>
     length (budget_filter 8500 ranked1) \<le> length (budget_filter 9000 ranked2)"
proof -
  have "\<exists>ranked1 ranked2.
     candidates maize 2 (Some 8500) (get_all_fertilizers sample_db) = Inr ranked1 \<and>
     candidates maize 2 (Some 9000) (get_all_fertilizers sample_db) = Inr ranked2 \<and>
     length (budget_filter 8500 ranked1) = 1 \<and> length (budget_filter 9000 ranked2) = 2"
    by (simp add: run_defs)
  then obtain ranked1 ranked2 where
    c1: "candidates maize 2 (Some 8500) (get_all_fertilizers sample_db) = Inr ranked1" and
    c2: "candidates maize 2 (Some 9000) (get_all_fertilizers sample_db) = Inr ranked2" and
    n: "length (budget_filter 8500 ranked1) = 1" "length (budget_filter 9000 ranked2) = 2"
    by blast
  have le: "(8500::real) \<le> 9000" by simp
  from budget_filter_monotone [OF c1 c2 le]
  have "length (budget_filter 8500 ranked1) \<le> length (budget_filter 9000 ranked2)"
    by blast
  then show ?thesis using c1 c2 n by blast
qed

text \<open>
  Claim C9. For every request that returns a recommendation, the rate resolver applied
  to the primary's fertilizer name and the request's farm size gives the primary's
  \<open>quantity_kg\<close>.
\<close>

theorem primary_quantity_round_trip:
  assumes "get_recommendation db cn st farm_size_acres budget_total = Inr (Recommendation r)"
  shows "get_fertilizer_rate (pr_fertilizer_name (primary r)) farm_size_acres
           = pr_quantity_kg (primary r)"
proof -
  from assms obtain crop soil scored tc alts where
    sc: "score_all crop farm_size_acres (budget_per_kg_of budget_total farm_size_acres)
           (get_all_fertilizers db) = Inr scored" and
    sel: "select budget_total (rank_by_score scored) = Inr (tc, alts)" and
    r: "r = build_response crop soil farm_size_acres budget_total tc alts"
    by (rule get_recommendation_cases)
  have "tc \<in> set (rank_by_score scored)" using sel by (rule select_top_mem)
  then have "tc \<in> set scored" by (simp add: rank_by_score_def)
  then have "application_rate_kg tc
               = get_fertilizer_rate (product_name (fertilizer tc)) farm_size_acres"
    using score_all_entries [OF sc] by blast
  then show ?thesis by (simp add: r build_response_def primary_of_def)
qed

text \<open>An instance: maize on two acres of loam, no budget; the primary is manure, 4000 kg.\<close>

theorem primary_quantity_round_trip_witness:
  "\<exists>r. get_recommendation sample_db ''Maize'' ''Loam'' 2 None = Inr (Recommendation r) \<and>
       pr_fertilizer_name (primary r) = ''Manure'' \<and> pr_quantity_kg (primary r) = 4000 \<and>
       get_fertilizer_rate (pr_fertilizer_name (primary r)) 2 = pr_quantity_kg (primary r)"
proof -
  have "\<exists>r. get_recommendation sample_db ''Maize'' ''Loam'' 2 None = Inr (Recommendation r) \<and>
       pr_fertilizer_name (primary r) = ''Manure'' \<and> pr_quantity_kg (primary r) = 4000"
    by (simp add: run_defs)
  then obtain r where
    run: "get_recommendation sample_db ''Maize'' ''Loam'' 2 None = Inr (Recommendation r)" and
    pr: "pr_fertilizer_name (primary r) = ''Manure''" "pr_quantity_kg (primary r) = 4000"
    by blast
  from primary_quantity_round_trip [OF run]
  have "get_fertilizer_rate (pr_fertilizer_name (primary r)) 2 = pr_quantity_kg (primary r)" .
  then show ?thesis using run pr by blast
qed

text \<open>
  Claim C10. For every request with a valid crop and soil and an empty fertilizer
  catalog, no result is returned: the working set is empty with and without a budget,
  and reading its first element raises \<^verbatim>\<open>IndexError\<close>. A recommendation is returned only
  from a catalog with at least one fertilizer (\<open>recommendation_needs_fertilizer\<close>).
\<close>

theorem empty_catalog_raises:
  assumes "get_crop_by_name db cn = Some crop" and "get_soil_by_type db st = Some soil"
    and "fertilizers db = []"
  shows "get_recommendation db cn st farm_size_acres budget_total = Inl IndexError"
  using assms
  by (simp add: get_recommendation_def get_all_fertilizers_def candidates_def
        rank_by_score_def select_Nil)

text \<open>An instance: the sample crops and soils with no fertilizer stored.\<close>

theorem empty_catalog_raises_witness:
  "get_crop_by_name no_fertilizer_db ''Maize'' = Some maize \<and>
   get_soil_by_type no_fertilizer_db ''Loam'' = Some loam \<and>
   fertilizers no_fertilizer_db = [] \<and>
   get_recommendation no_fertilizer_db ''Maize'' ''Loam'' 2 (Some 10000) = Inl IndexError"
proof -
  have c: "get_crop_by_name no_fertilizer_db ''Maize'' = Some maize"
    and s: "get_soil_by_type no_fertilizer_db ''Loam'' = Some loam"
    by (simp_all add: sample_lookups)
  have e: "fertilizers no_fertilizer_db = []" by (simp add: no_fertilizer_db_def)
  from empty_catalog_raises [OF c s e, of 2 "Some 10000"] c s e show ?thesis by simp
qed

end
